theory Spec2Isabelle
  imports Complex_Main "HOL-Library.Word" "HOL-Library.AList"
begin

section \<open>Strings and regular expressions of the server\<close>

text \<open>
  The server (\<^verbatim>\<open>server.js\<close>) is JavaScript. Its strings are modelled as \<^typ>\<open>string\<close>;
  a character stands for one code unit below 256. The regular expressions of the source
  are all anchored at both ends (\<^verbatim>\<open>^...$\<close>) and built from case-insensitive literal
  alternatives and bounded repetitions of a character class, so a pattern is a list of
  such items and \<open>matches\<close> is the backtracking matcher of \<^verbatim>\<open>RegExp.prototype.test\<close>
  restricted to them.
\<close>

definition is_digit :: "char \<Rightarrow> bool" where
  "is_digit c = ((48::nat) \<le> of_char c \<and> (of_char c :: nat) \<le> 57)"

definition is_upper :: "char \<Rightarrow> bool" where
  "is_upper c = ((65::nat) \<le> of_char c \<and> (of_char c :: nat) \<le> 90)"

definition is_lower :: "char \<Rightarrow> bool" where
  "is_lower c = ((97::nat) \<le> of_char c \<and> (of_char c :: nat) \<le> 122)"

text \<open>The class \<^verbatim>\<open>[A-Z0-9]\<close> under the flag \<^verbatim>\<open>i\<close>.\<close>

definition is_alnum :: "char \<Rightarrow> bool" where
  "is_alnum c = (is_upper c \<or> is_lower c \<or> is_digit c)"

text \<open>Under the flag \<^verbatim>\<open>i\<close> two code units match when their canonical forms are
  equal. The literals and classes of the patterns are ASCII capitals and digits, and
  the only code units whose canonical form is an ASCII capital are the letters
  themselves, in either case.\<close>

definition upper_char :: "char \<Rightarrow> char" where
  "upper_char c = (if is_lower c then char_of ((of_char c :: nat) - 32) else c)"

definition canonicalize :: "string \<Rightarrow> string" where
  "canonicalize s = map upper_char s"

text \<open>A literal of the pattern (written in upper case) against the start of the input,
  ignoring case.\<close>

definition ci_prefix :: "string \<Rightarrow> string \<Rightarrow> bool" where
  "ci_prefix p s = (length p \<le> length s \<and> canonicalize (take (length p) s) = p)"

datatype item = Lit "string list" | Rep "char \<Rightarrow> bool" nat nat

fun matches :: "item list \<Rightarrow> string \<Rightarrow> bool" where
  "matches [] s = (s = [])"
| "matches (Lit alts # r) s =
     list_ex (\<lambda>p. ci_prefix p s \<and> matches r (drop (length p) s)) alts"
| "matches (Rep P lo hi # r) s =
     list_ex (\<lambda>n. n \<le> length s \<and> list_all P (take n s) \<and> matches r (drop n s))
       [lo..<Suc hi]"

section \<open>Carrier detector\<close>

record detection =
  detected :: bool
  courierType :: "string option"

definition found :: "string \<Rightarrow> detection" where
  "found c = \<lparr>detected = True, courierType = Some c\<rparr>"

definition unknown :: detection where
  "unknown = \<lparr>detected = False, courierType = None\<rparr>"

text \<open>The six patterns of \<^verbatim>\<open>detectCourierType\<close>, in the order of the source.\<close>

definition jne_rule :: "string \<Rightarrow> bool" where
  "jne_rule resi = matches [Lit [''JNE'', ''CGK''], Rep is_alnum 7 12] resi"

definition jnt_rule :: "string \<Rightarrow> bool" where
  "jnt_rule resi = matches [Lit [''JT'', ''JX''], Rep is_digit 10 14] resi"

definition anteraja_rule :: "string \<Rightarrow> bool" where
  "anteraja_rule resi =
     (matches [Lit [''TSA''], Rep is_alnum 7 12] resi
      \<or> (matches [Rep is_alnum 10 15] resi \<and> length resi \<ge> 10))"

definition sicepat_rule :: "string \<Rightarrow> bool" where
  "sicepat_rule resi = matches [Rep is_digit 12 12] resi"

definition ninja_rule :: "string \<Rightarrow> bool" where
  "ninja_rule resi = matches [Lit [''NLIDAP'', ''NV''], Rep is_digit 8 12] resi"

definition pos_rule :: "string \<Rightarrow> bool" where
  "pos_rule resi =
     (matches [Lit [''RR''], Rep is_digit 9 9, Lit [''ID'']] resi
      \<or> matches [Rep is_digit 13 13] resi)"

definition detectCourierType :: "string \<Rightarrow> detection" where
  "detectCourierType resi =
     (if resi = [] \<or> length resi < 8 then unknown
      else if jne_rule resi then found ''jne''
      else if jnt_rule resi then found ''jnt''
      else if anteraja_rule resi then found ''anteraja''
      else if sicepat_rule resi then found ''sicepat''
      else if ninja_rule resi then found ''ninja''
      else if pos_rule resi then found ''pos''
      else unknown)"

section \<open>Stored documents\<close>

text \<open>
  The three collections the handlers below read and write (\<^verbatim>\<open>shipments\<close>,
  \<^verbatim>\<open>lockers\<close>, \<^verbatim>\<open>customer_trackings\<close>) are lists of documents in insertion order;
  \<^verbatim>\<open>findOne\<close> returns the first document that satisfies the query and \<^verbatim>\<open>save\<close>
  writes the changed document back in its place. A \<^verbatim>\<open>Date\<close> is a number of
  milliseconds and \<^verbatim>\<open>new Date()\<close> reads a clock that is passed to every handler.
  Payloads that the server only stores and returns are opaque text. Numbers are IEEE
  doubles, modelled by the rational numbers they denote (see \<open>fl\<close> below). A string
  field that may be absent and is only read through \<^verbatim>\<open>x || ""\<close> is a string, empty when
  absent.
\<close>

type_synonym json = string
type_synonym date = nat
type_synonym number = rat

datatype extra =
    Source string
  | SourceWeight string "number option"
  | Differential number number number nat
  | FromClient "json option"

record log_entry =
  event :: "string option"
  log_lockerId :: string
  log_resi :: "string option"
  log_timestamp :: date
  log_extra :: extra

record shipment =
  sh_resi :: string
  sh_lockerId :: string
  sh_status :: string
  sh_weight :: "number option"
  sh_weightRecordedAt :: "date option"
  sh_logs :: "log_entry list"
  sh_courierId :: string
  sh_courierName :: string
  sh_courierPlate :: string
  sh_customerId :: string
  deliveredToLockerAt :: "date option"
  pickedUpAt :: "date option"

record history_entry =
  h_courierId :: string
  h_courierName :: string
  h_courierPlate :: string
  h_resi :: string
  deliveredAt :: date
  usedToken :: "string option"

record command =
  cmd_type :: string
  cmd_resi :: string
  cmd_source :: string
  cmd_createdAt :: date
  cmd_customerId :: "string option"

record debug_info =
  dbg_enabled :: bool
  dbg_resi :: "string option"
  scanAtClient :: "date option"
  scanAtBackend :: "date option"
  commandSentAt :: "date option"
  espLogAt :: "date option"
  lastEvent :: "string option"

record locker =
  lk_lockerId :: string
  lockerToken :: "string option"
  lk_customerId :: "string option"
  courierHistory :: "history_entry list"
  debugInfo :: "debug_info option"
  pendingResi :: "string list"
  lk_command :: "command option"
  isActive :: bool
  lk_status :: string
  tokenUpdatedAt :: "date option"
  lastHeartbeat :: "date option"

record binderbyte_data =
  bb_summary :: "json option"
  bb_validatedAt :: "date option"

text \<open>
  The note of a tracking record is a text that begins with a check mark, a character
  outside the code units of \<^typ>\<open>string\<close>. A note is therefore kept as the template
  that made it: \<open>ValidatedFromCache c\<close> is the text
  \<^verbatim>\<open>Validated from cache (${c.toUpperCase()})\<close> behind its check mark,
  \<open>ValidatedByBinderbyte\<close> and \<open>PatternValidated\<close> are the two fixed texts, and
  \<open>Note\<close> is any other text.
\<close>

datatype tracking_note =
    ValidatedFromCache string
  | ValidatedByBinderbyte
  | PatternValidated
  | Note string

record tracking =
  tr_resi :: string
  tr_courierType :: "string option"
  tr_customerId :: string
  tr_note :: tracking_note
  validated :: bool
  validationAttempted :: bool
  binderbyteData :: "binderbyte_data option"
  assignedLockerId :: "string option"
  lockerAssignedAt :: "date option"
  jneNumber :: "string option"
  tr_createdAt :: date

text \<open>The in-memory \<^verbatim>\<open>weightSessions\<close> map holds one session per locker id.\<close>

record reading =
  rd_weight :: number
  rd_timestamp :: date

record session =
  ws_resi :: string
  startedAt :: date
  readings :: "reading list"
  active :: bool

record server =
  shipments :: "shipment list"
  lockers :: "locker list"
  trackings :: "tracking list"
  weightSessions :: "(string \<times> session) list"

subsection \<open>Store and string helpers\<close>

definition findOne :: "('a \<Rightarrow> bool) \<Rightarrow> 'a list \<Rightarrow> 'a option" where
  "findOne q docs = find q docs"

fun save :: "('a \<Rightarrow> bool) \<Rightarrow> 'a \<Rightarrow> 'a list \<Rightarrow> 'a list" where
  "save q d [] = []"
| "save q d (x # xs) = (if q x then d # xs else x # save q d xs)"

text \<open>\<^verbatim>\<open>!x\<close> on an optional string: absent and empty are both falsy.\<close>

fun falsy :: "string option \<Rightarrow> bool" where
  "falsy None = True"
| "falsy (Some s) = (s = [])"

text \<open>\<^verbatim>\<open>x || d\<close> on a string.\<close>

definition or_else :: "string \<Rightarrow> string \<Rightarrow> string" where
  "or_else x d = (if x = [] then d else x)"

text \<open>\<^verbatim>\<open>x || null\<close> on an optional number: zero is falsy.\<close>

definition nonzero :: "rat option \<Rightarrow> rat option" where
  "nonzero x = (case x of Some w \<Rightarrow> if w = 0 then None else Some w | None \<Rightarrow> None)"

text \<open>White space and line terminators removed by \<^verbatim>\<open>String.prototype.trim\<close>:
  among the code units below 256 these are tab, line feed, vertical tab, form feed,
  carriage return, space and the no-break space (160).\<close>

definition is_ws :: "char \<Rightarrow> bool" where
  "is_ws c = ((of_char c :: nat) \<in> {9, 10, 11, 12, 13, 32, 160})"

definition trim :: "string \<Rightarrow> string" where
  "trim s = rev (dropWhile is_ws (rev (dropWhile is_ws s)))"

text \<open>
  \<^verbatim>\<open>String.prototype.toUpperCase\<close>. Among the code units below 256 the letters
  \<^verbatim>\<open>a\<close> to \<^verbatim>\<open>z\<close> and the Latin-1 letters 224 to 254 (but not the division sign,
  247) move down by 32, and the sharp s (223) becomes \<^verbatim>\<open>SS\<close>. The upper-case forms
  of the micro sign (181) and of the y with diaeresis (255) are U+039C and U+0178,
  which no \<^typ>\<open>char\<close> holds: the result is \<open>None\<close> for a string that has one of
  them, and a handler that would store or send such a string has no value here.
\<close>

definition upper_units :: "char \<Rightarrow> string option" where
  "upper_units c =
     (let n = (of_char c :: nat)
      in if (97 \<le> n \<and> n \<le> 122) \<or> (224 \<le> n \<and> n \<le> 246) \<or> (248 \<le> n \<and> n \<le> 254)
         then Some [char_of (n - 32)]
         else if n = 223 then Some ''SS''
         else if n = 181 \<or> n = 255 then None
         else Some [c])"

fun toUpperCase :: "string \<Rightarrow> string option" where
  "toUpperCase [] = Some []"
| "toUpperCase (c # cs) =
     (case upper_units c of
        None \<Rightarrow> None
      | Some u \<Rightarrow> (case toUpperCase cs of None \<Rightarrow> None | Some r \<Rightarrow> Some (u @ r)))"

subsection \<open>Tokens\<close>

text \<open>
  \<^verbatim>\<open>randomToken(prefix)\<close> is the prefix, a dash and the twelve lower-case hexadecimal
  digits of \<^verbatim>\<open>crypto.randomBytes(6)\<close>. The bytes drawn are an input of every handler
  that rotates or creates a token.
\<close>

definition hex_digit :: "nat \<Rightarrow> char" where
  "hex_digit n = ''0123456789abcdef'' ! (n mod 16)"

definition hex_byte :: "8 word \<Rightarrow> string" where
  "hex_byte b = [hex_digit (unat b div 16), hex_digit (unat b mod 16)]"

definition toHex :: "8 word list \<Rightarrow> string" where
  "toHex bs = concat (map hex_byte bs)"

definition randomToken :: "string \<Rightarrow> 8 word list \<Rightarrow> string" where
  "randomToken prefix bytes = prefix @ ''-'' @ toHex bytes"

subsection \<open>Numbers\<close>

text \<open>
  A finite double is the rational it denotes. \<open>fl x\<close> is the double nearest to \<open>x\<close>
  (ties to even, 53 significant bits, the smallest step being \<open>2\<^sup>-\<^sup>1\<^sup>0\<^sup>7\<^sup>4\<close>); it is
  what reading a decimal literal, \<^verbatim>\<open>parseFloat\<close> and each arithmetic operation return.
  It is computed on the numerator and denominator of \<open>x\<close>. Overflow to infinity is
  left out: the weights handled are bounded.
\<close>

definition pow2 :: "int \<Rightarrow> rat" where
  "pow2 e = (if 0 \<le> e then 2 ^ nat e else 1 / 2 ^ nat (- e))"

text \<open>The number of binary digits of a positive integer.\<close>

function bitlen :: "int \<Rightarrow> nat" where
  "bitlen a = (if a \<le> 0 then 0 else Suc (bitlen (a div 2)))"
  by pat_completeness auto
termination
  by (relation "measure nat") auto

text \<open>For \<open>a, b > 0\<close>: the exponent \<open>e\<close> with \<open>2\<^sup>e \<le> a / b < 2\<^sup>e\<^sup>+\<^sup>1\<close>.\<close>

definition floor_log2 :: "int \<Rightarrow> int \<Rightarrow> int" where
  "floor_log2 a b =
     (let e = int (bitlen a) - int (bitlen b)
      in if (if 0 \<le> e then b * 2 ^ nat e \<le> a else b \<le> a * 2 ^ nat (- e)) then e
         else e - 1)"

text \<open>For \<open>d > 0\<close>: the integer nearest to \<open>n / d\<close>, the even one at a tie.\<close>

definition round_div :: "int \<Rightarrow> int \<Rightarrow> int" where
  "round_div n d =
     (let k = n div d; r = 2 * (n mod d)
      in if r < d then k else if d < r then k + 1 else if even k then k else k + 1)"

definition fl :: "rat \<Rightarrow> number" where
  "fl x =
     (let (a, b) = quotient_of x
      in if a = 0 then 0
         else
           let e = max (floor_log2 \<bar>a\<bar> b - 52) (- 1074);
               m = (if 0 \<le> e then round_div a (b * 2 ^ nat e)
                    else round_div (a * 2 ^ nat (- e)) b)
           in of_int m * pow2 e)"

text \<open>\<^verbatim>\<open>x.toFixed(3)\<close> as the decimal it prints: the multiple of one thousandth nearest
  to the magnitude of \<open>x\<close>, the larger one at a tie, with the sign of \<open>x\<close>.\<close>

definition toFixed3 :: "number \<Rightarrow> rat" where
  "toFixed3 x =
     (let (a, b) = quotient_of x
      in of_int (sgn a * ((\<bar>a\<bar> * 2000 + b) div (2 * b))) / 1000)"

text \<open>\<^verbatim>\<open>parseFloat(x.toFixed(3))\<close>.\<close>

definition round3 :: "number \<Rightarrow> number" where
  "round3 x = fl (toFixed3 x)"

section \<open>Deposit protocol\<close>

text \<open>
  A handler takes the server state and its request and returns the HTTP status, the
  body of the reply and the state that its \<^verbatim>\<open>save\<close> calls leave behind; a handler that
  returns before saving leaves the state as it was. The calls to
  \<^verbatim>\<open>updateCourierActivity\<close> and \<^verbatim>\<open>recalcCourierState\<close> touch only the couriers
  collection, and the request identifiers, timings, metrics and console output are
  diagnostic; they are not part of the state modelled here.
\<close>

datatype deposit_body =
    MissingFields
  | LockerNotFound
  | TokenInvalid
  | WrongLocker string string
  | ShipmentNotFound
  | InvalidState string
  | NotPending "string list"
  | NoLockerForToken
  | NoPendingForPlate "string option" string nat nat
  | DepositedToken string string string "number option" "date option" "string option" string
  | DepositedResi string string string
  | DepositedPlate string string string "string option" string
  | DepositedLegacy string string "string list" "string option" string

type_synonym 'b reply = "nat \<times> 'b"

definition delivered_log :: "string \<Rightarrow> string \<Rightarrow> date \<Rightarrow> extra \<Rightarrow> log_entry" where
  "delivered_log lid r now x =
     \<lparr>event = Some ''delivered_to_locker'', log_lockerId = lid, log_resi = Some r,
      log_timestamp = now, log_extra = x\<rparr>"

definition by_resi_locker :: "string \<Rightarrow> string \<Rightarrow> shipment \<Rightarrow> bool" where
  "by_resi_locker r lid s = (sh_resi s = r \<and> sh_lockerId s = lid)"

definition by_resi :: "string \<Rightarrow> shipment \<Rightarrow> bool" where
  "by_resi r s = (sh_resi s = r)"

definition by_lockerId :: "string \<Rightarrow> locker \<Rightarrow> bool" where
  "by_lockerId lid l = (lk_lockerId l = lid)"

text \<open>The token check shared by \<^verbatim>\<open>deposit-token\<close> and \<^verbatim>\<open>deposit-resi\<close>:
  \<^verbatim>\<open>!locker.lockerToken || locker.lockerToken !== lockerToken.trim()\<close>.\<close>

definition token_rejected :: "locker \<Rightarrow> string \<Rightarrow> bool" where
  "token_rejected l presented =
     (falsy (lockerToken l) \<or> lockerToken l \<noteq> Some (trim presented))"

text \<open>\<^verbatim>\<open>POST /api/courier/deposit-token\<close>. A weight in the body is a JSON number.\<close>

definition deposit_token ::
  "server \<Rightarrow> string option \<Rightarrow> string option \<Rightarrow> string option \<Rightarrow> number option
     \<Rightarrow> date \<Rightarrow> 8 word list \<Rightarrow> deposit_body reply \<times> server" where
  "deposit_token st lockerId_in token_in resi_in weight now bytes =
     (case (lockerId_in, token_in, resi_in) of
        (Some lockerId, Some presented, Some resi) \<Rightarrow>
       (if lockerId = [] \<or> presented = [] \<or> resi = [] then ((400, MissingFields), st)
        else
         (case findOne (by_lockerId lockerId) (lockers st) of
            None \<Rightarrow> ((404, LockerNotFound), st)
          | Some locker \<Rightarrow>
            if token_rejected locker presented then ((400, TokenInvalid), st)
            else
             (case findOne (by_resi_locker resi lockerId) (shipments st) of
                None \<Rightarrow>
                  (case findOne (by_resi resi) (shipments st) of
                     Some other \<Rightarrow> ((400, WrongLocker (sh_lockerId other) lockerId), st)
                   | None \<Rightarrow> ((404, ShipmentNotFound), st))
              | Some shipment \<Rightarrow>
                  if sh_status shipment \<noteq> ''pending_locker''
                  then ((400, InvalidState (sh_status shipment)), st)
                  else
                    let pending1 =
                          (if resi \<notin> set (pendingResi locker)
                           then pendingResi locker @ [resi] else pendingResi locker);
                        shipment1 =
                          (case nonzero weight of
                             Some w \<Rightarrow>
                               if 0 < w
                               then shipment\<lparr>sh_weight := Some (round3 w),
                                              sh_weightRecordedAt := Some now\<rparr>
                               else shipment
                           | None \<Rightarrow> shipment);
                        shipment2 = shipment1
                          \<lparr>sh_status := ''delivered_to_locker'',
                           sh_logs := sh_logs shipment1 @
                             [delivered_log lockerId resi now
                                (SourceWeight ''courier_deposit_token'' (nonzero weight))],
                           deliveredToLockerAt := Some now\<rparr>;
                        history = courierHistory locker @
                          [\<lparr>h_courierId = sh_courierId shipment2,
                            h_courierName = or_else (sh_courierName shipment2) ''Unknown'',
                            h_courierPlate = sh_courierPlate shipment2,
                            h_resi = resi, deliveredAt = now, usedToken = Some presented\<rparr>];
                        cmd = \<lparr>cmd_type = ''open'', cmd_resi = resi,
                               cmd_source = ''courier_token'', cmd_createdAt = now,
                               cmd_customerId = Some (sh_customerId shipment2)\<rparr>;
                        oldToken = lockerToken locker;
                        newToken = randomToken (''LK-'' @ lockerId) bytes;
                        locker1 = locker
                          \<lparr>lockerToken := Some newToken,
                           courierHistory := history,
                           pendingResi := filter (\<lambda>r. r \<noteq> resi) pending1,
                           lk_command := Some cmd,
                           tokenUpdatedAt := Some now\<rparr>
                    in ((200, DepositedToken lockerId resi (sh_customerId shipment2)
                                (nonzero (sh_weight shipment2)) (sh_weightRecordedAt shipment2)
                                oldToken newToken),
                        st\<lparr>shipments :=
                             save (by_resi_locker resi lockerId) shipment2 (shipments st),
                           lockers := save (by_lockerId lockerId) locker1 (lockers st)\<rparr>))))
      | _ \<Rightarrow> ((400, MissingFields), st))"

text \<open>\<^verbatim>\<open>POST /api/courier/deposit\<close>, the deposit by token and licence plate. The locker
  is the first one that holds the trimmed token, the shipment the first one of the
  plate that waits for this locker. A plate whose upper-case form has a code unit
  outside \<^typ>\<open>char\<close> is the plate of no stored shipment.\<close>

definition pending_at :: "string \<Rightarrow> shipment \<Rightarrow> bool" where
  "pending_at lid s = (sh_lockerId s = lid \<and> sh_status s = ''pending_locker'')"

definition pending_for :: "string \<Rightarrow> shipment \<Rightarrow> bool" where
  "pending_for plate s = (sh_courierPlate s = plate \<and> sh_status s = ''pending_locker'')"

definition by_token :: "string \<Rightarrow> locker \<Rightarrow> bool" where
  "by_token t l = (lockerToken l = Some t)"

definition courier_deposit ::
  "server \<Rightarrow> string option \<Rightarrow> string option \<Rightarrow> date \<Rightarrow> 8 word list
     \<Rightarrow> deposit_body reply \<times> server" where
  "courier_deposit st token_in plate_in now bytes =
     (case (token_in, plate_in) of
        (Some presented, Some plate) \<Rightarrow>
       (if presented = [] \<or> plate = [] then ((400, MissingFields), st)
        else
         (case findOne (by_token (trim presented)) (lockers st) of
            None \<Rightarrow> ((404, NoLockerForToken), st)
          | Some locker \<Rightarrow>
             (case toUpperCase (trim plate) of
                None \<Rightarrow>
                  ((404, NoPendingForPlate None (lk_lockerId locker)
                           (length (filter (pending_at (lk_lockerId locker)) (shipments st))) 0),
                   st)
              | Some normalizedPlate \<Rightarrow>
                 (case findOne (\<lambda>s. pending_for normalizedPlate s
                                     \<and> sh_lockerId s = lk_lockerId locker) (shipments st) of
                    None \<Rightarrow>
                      ((404, NoPendingForPlate (Some normalizedPlate) (lk_lockerId locker)
                               (length (filter (pending_at (lk_lockerId locker)) (shipments st)))
                               (length (filter (pending_for normalizedPlate) (shipments st)))),
                       st)
                  | Some shipment \<Rightarrow>
                      let shipment1 = shipment
                            \<lparr>sh_status := ''delivered_to_locker'',
                             sh_logs := sh_logs shipment @
                               [delivered_log (lk_lockerId locker) (sh_resi shipment) now
                                  (Source ''courier_deposit_plate'')],
                             deliveredToLockerAt := Some now\<rparr>;
                          history = courierHistory locker @
                            [\<lparr>h_courierId = sh_courierId shipment1,
                              h_courierName = or_else (sh_courierName shipment1) ''Unknown'',
                              h_courierPlate = normalizedPlate,
                              h_resi = sh_resi shipment1, deliveredAt = now,
                              usedToken = Some presented\<rparr>];
                          cmd = \<lparr>cmd_type = ''open'', cmd_resi = sh_resi shipment1,
                                 cmd_source = ''courier'', cmd_createdAt = now,
                                 cmd_customerId = None\<rparr>;
                          oldToken = lockerToken locker;
                          newToken = randomToken (''LK-'' @ lk_lockerId locker) bytes;
                          locker1 = locker
                            \<lparr>lockerToken := Some newToken,
                             courierHistory := history,
                             pendingResi :=
                               filter (\<lambda>r. r \<noteq> sh_resi shipment1) (pendingResi locker),
                             lk_command := Some cmd,
                             tokenUpdatedAt := Some now\<rparr>
                      in ((200, DepositedPlate (lk_lockerId locker) (sh_resi shipment1)
                                  normalizedPlate oldToken newToken),
                          st\<lparr>shipments :=
                               save (\<lambda>s. pending_for normalizedPlate s
                                          \<and> sh_lockerId s = lk_lockerId locker)
                                 shipment1 (shipments st),
                             lockers :=
                               save (by_token (trim presented)) locker1 (lockers st)\<rparr>)))))
      | _ \<Rightarrow> ((400, MissingFields), st))"

text \<open>\<^verbatim>\<open>POST /api/courier/deposit-resi\<close>. With \<^verbatim>\<open>debug\<close> set the scan times are
  written to the locker document in memory before the token is checked; they reach
  the store only with the \<^verbatim>\<open>save\<close> of a successful deposit. A \<^verbatim>\<open>scanAtClient\<close> of
  zero is falsy and is not written.\<close>

definition deposit_resi ::
  "server \<Rightarrow> string option \<Rightarrow> string option \<Rightarrow> string option \<Rightarrow> bool \<Rightarrow> date option
     \<Rightarrow> date \<Rightarrow> 8 word list \<Rightarrow> deposit_body reply \<times> server" where
  "deposit_resi st lockerId_in token_in resi_in debug scanAtClient_in now bytes =
     (case (lockerId_in, token_in, resi_in) of
        (Some lockerId, Some presented, Some resi) \<Rightarrow>
       (if lockerId = [] \<or> presented = [] \<or> resi = [] then ((400, MissingFields), st)
        else
         (case findOne (by_lockerId lockerId) (lockers st) of
            None \<Rightarrow> ((404, LockerNotFound), st)
          | Some locker0 \<Rightarrow>
            let locker =
                  (if debug
                   then
                     let d0 = (case debugInfo locker0 of
                                 Some d \<Rightarrow> d
                               | None \<Rightarrow>
                                   \<lparr>dbg_enabled = False, dbg_resi = None, scanAtClient = None,
                                    scanAtBackend = None, commandSentAt = None,
                                    espLogAt = None, lastEvent = None\<rparr>);
                         d1 = d0\<lparr>dbg_enabled := True, dbg_resi := Some resi,
                                  scanAtBackend := Some now\<rparr>;
                         d2 = (case scanAtClient_in of
                                 Some t \<Rightarrow> if t = 0 then d1 else d1\<lparr>scanAtClient := Some t\<rparr>
                               | None \<Rightarrow> d1)
                     in locker0\<lparr>debugInfo := Some d2\<rparr>
                   else locker0) in
            if token_rejected locker presented then ((400, TokenInvalid), st)
            else
             (case findOne (by_resi_locker resi lockerId) (shipments st) of
                None \<Rightarrow>
                  (case findOne (by_resi resi) (shipments st) of
                     Some other \<Rightarrow> ((400, WrongLocker (sh_lockerId other) lockerId), st)
                   | None \<Rightarrow> ((404, ShipmentNotFound), st))
              | Some shipment \<Rightarrow>
                  if sh_status shipment \<noteq> ''pending_locker''
                  then ((400, InvalidState (sh_status shipment)), st)
                  else
                    let pending1 =
                          (if resi \<notin> set (pendingResi locker)
                           then pendingResi locker @ [resi] else pendingResi locker);
                        shipment1 = shipment
                          \<lparr>sh_status := ''delivered_to_locker'',
                           sh_logs := sh_logs shipment @
                             [delivered_log lockerId resi now (Source ''courier_deposit_resi'')],
                           deliveredToLockerAt := Some now\<rparr>;
                        cmd = \<lparr>cmd_type = ''open'', cmd_resi = resi,
                               cmd_source = ''courier_resi'', cmd_createdAt = now,
                               cmd_customerId = Some (sh_customerId shipment1)\<rparr>;
                        oldToken = lockerToken locker;
                        history = courierHistory locker @
                          [\<lparr>h_courierId = sh_courierId shipment1,
                            h_courierName = sh_courierName shipment1,
                            h_courierPlate = sh_courierPlate shipment1,
                            h_resi = resi, deliveredAt = now, usedToken = oldToken\<rparr>];
                        newToken = randomToken (''LK-'' @ lockerId) bytes;
                        locker1 = locker
                          \<lparr>lockerToken := Some newToken,
                           courierHistory := history,
                           pendingResi := filter (\<lambda>r. r \<noteq> resi) pending1,
                           lk_command := Some cmd,
                           tokenUpdatedAt := Some now\<rparr>
                    in ((200, DepositedResi lockerId resi (sh_customerId shipment1)),
                        st\<lparr>shipments :=
                             save (by_resi_locker resi lockerId) shipment1 (shipments st),
                           lockers := save (by_lockerId lockerId) locker1 (lockers st)\<rparr>))))
      | _ \<Rightarrow> ((400, MissingFields), st))"

text \<open>\<^verbatim>\<open>getLocker\<close>: the locker with this id, created with a fresh token when there
  is none.\<close>

definition new_locker :: "string \<Rightarrow> 8 word list \<Rightarrow> locker" where
  "new_locker lockerId bytes =
     \<lparr>lk_lockerId = lockerId,
      lockerToken = Some (randomToken (''LK-'' @ lockerId) bytes),
      lk_customerId = None, courierHistory = [], debugInfo = None, pendingResi = [],
      lk_command = None, isActive = True, lk_status = ''unknown'',
      tokenUpdatedAt = None, lastHeartbeat = None\<rparr>"

definition getLocker :: "server \<Rightarrow> string \<Rightarrow> 8 word list \<Rightarrow> locker \<times> server" where
  "getLocker st lockerId bytes =
     (case findOne (by_lockerId lockerId) (lockers st) of
        Some l \<Rightarrow> (l, st)
      | None \<Rightarrow>
          let l = new_locker lockerId bytes
          in (l, st\<lparr>lockers := lockers st @ [l]\<rparr>))"

text \<open>\<^verbatim>\<open>POST /api/locker/:lockerId/deposit\<close>, the older deposit by token and tracking
  number. The locker id is a path parameter.\<close>

definition locker_deposit ::
  "server \<Rightarrow> string \<Rightarrow> string option \<Rightarrow> string option \<Rightarrow> date \<Rightarrow> 8 word list
     \<Rightarrow> 8 word list \<Rightarrow> deposit_body reply \<times> server" where
  "locker_deposit st lockerId token_in resi_in now bytes_create bytes =
     (case (token_in, resi_in) of
        (Some token, Some resi) \<Rightarrow>
       (if token = [] \<or> resi = [] then ((400, MissingFields), st)
        else
        let (locker, st1) = getLocker st lockerId bytes_create in
        if Some token \<noteq> lockerToken locker then ((403, TokenInvalid), st1)
        else if resi \<notin> set (pendingResi locker)
        then ((403, NotPending (pendingResi locker)), st1)
        else
         (case findOne (by_resi resi) (shipments st1) of
            None \<Rightarrow> ((404, ShipmentNotFound), st1)
          | Some shipment \<Rightarrow>
              let shipment1 = shipment
                    \<lparr>sh_status := ''delivered_to_locker'',
                     sh_logs := sh_logs shipment @
                       [delivered_log lockerId resi now (Source ''locker_deposit_legacy'')],
                     deliveredToLockerAt := Some now\<rparr>;
                  history = courierHistory locker @
                    [\<lparr>h_courierId = sh_courierId shipment1,
                      h_courierName = or_else (sh_courierName shipment1) ''Unknown'',
                      h_courierPlate = sh_courierPlate shipment1,
                      h_resi = resi, deliveredAt = now, usedToken = Some token\<rparr>];
                  cmd = \<lparr>cmd_type = ''open'', cmd_resi = resi, cmd_source = ''courier'',
                         cmd_createdAt = now, cmd_customerId = None\<rparr>;
                  oldToken = lockerToken locker;
                  newToken = randomToken (''LK-'' @ lockerId) bytes;
                  locker1 = locker
                    \<lparr>lockerToken := Some newToken,
                     courierHistory := history,
                     pendingResi := filter (\<lambda>r. r \<noteq> resi) (pendingResi locker),
                     lk_command := Some cmd,
                     tokenUpdatedAt := Some now\<rparr>
              in ((200, DepositedLegacy lockerId resi (pendingResi locker1) oldToken newToken),
                  st1\<lparr>shipments := save (by_resi resi) shipment1 (shipments st1),
                      lockers := save (by_lockerId lockerId) locker1 (lockers st1)\<rparr>)))
      | _ \<Rightarrow> ((400, MissingFields), st))"

text \<open>\<^verbatim>\<open>POST /api/locker/:lockerId/log\<close>, the event log of the locker controller.\<close>

definition locker_log ::
  "server \<Rightarrow> string \<Rightarrow> string option \<Rightarrow> string option \<Rightarrow> json option \<Rightarrow> date
     \<Rightarrow> log_entry reply \<times> server" where
  "locker_log st lockerId event_in resi_in extra_in now =
     (let shipment =
            (case resi_in of
               Some resi \<Rightarrow> if resi = [] then None else findOne (by_resi resi) (shipments st)
             | None \<Rightarrow> None);
          logEntry =
            \<lparr>event = event_in, log_lockerId = lockerId,
             log_resi = (if falsy resi_in then None else resi_in),
             log_timestamp = now,
             log_extra = FromClient (if falsy extra_in then None else extra_in)\<rparr>;
          st1 =
            (if event_in \<in> {Some ''locker_opened'', Some ''opened_by_courier''}
             then
              (case findOne (by_lockerId lockerId) (lockers st) of
                 None \<Rightarrow> st
               | Some locker \<Rightarrow>
                   (case debugInfo locker of
                      None \<Rightarrow> st
                    | Some d \<Rightarrow>
                        if dbg_enabled d \<and> scanAtBackend d \<noteq> None
                        then
                          let d1 = d\<lparr>espLogAt := Some now, lastEvent := Some ''esp_log'',
                                     dbg_resi := resi_in\<rparr>
                          in st\<lparr>lockers :=
                                 save (by_lockerId lockerId) (locker\<lparr>debugInfo := Some d1\<rparr>)
                                   (lockers st)\<rparr>
                        else st))
             else st)
      in case shipment of
           None \<Rightarrow> ((200, logEntry), st1)
         | Some sh \<Rightarrow>
             let sh1 = sh\<lparr>sh_logs := sh_logs sh @ [logEntry]\<rparr>;
                 sh2 = (if event_in = Some ''locker_closed''
                           \<and> sh_status sh1 = ''delivered_to_locker''
                        then sh1\<lparr>sh_status := ''ready_for_pickup''\<rparr> else sh1);
                 sh3 = (if event_in = Some ''opened_by_customer''
                        then sh2\<lparr>pickedUpAt := Some now, sh_status := ''completed''\<rparr>
                        else sh2)
             in ((200, logEntry),
                 st1\<lparr>shipments := save (by_resi (sh_resi sh)) sh3 (shipments st1)\<rparr>))"

section \<open>Weight sessions\<close>

datatype weight_body =
    ResiMissing
  | SessionStarted string string
  | InvalidWeight
  | NoActiveSession
  | ReadingRecorded nat number string
  | InsufficientReadings
  | ShipmentMissing
  | AlreadyRecorded string number "date option"
  | WeightRecorded string number date number number nat

text \<open>\<^verbatim>\<open>POST /api/locker/:lockerId/weight/start\<close>. The session is kept under the
  upper-case form of the trimmed number; there is no value when that form has a code
  unit outside \<^typ>\<open>char\<close>.\<close>

definition weight_start ::
  "server \<Rightarrow> string \<Rightarrow> string option \<Rightarrow> date \<Rightarrow> (weight_body reply \<times> server) option" where
  "weight_start st lockerId resi_in now =
     (case resi_in of
        None \<Rightarrow> Some ((400, ResiMissing), st)
      | Some resi \<Rightarrow>
          if resi = [] then Some ((400, ResiMissing), st)
          else
           (case toUpperCase (trim resi) of
              None \<Rightarrow> None
            | Some upper \<Rightarrow>
                let s = \<lparr>ws_resi = upper, startedAt = now, readings = [], active = True\<rparr>
                in Some ((200, SessionStarted lockerId upper),
                         st\<lparr>weightSessions := AList.update lockerId s (weightSessions st)\<rparr>)))"

text \<open>\<^verbatim>\<open>POST /api/locker/:lockerId/weight/reading\<close>. The argument is the value of
  \<^verbatim>\<open>parseFloat(weight)\<close>, \<open>None\<close> when it is \<^verbatim>\<open>NaN\<close>.\<close>

definition weight_reading ::
  "server \<Rightarrow> string \<Rightarrow> number option \<Rightarrow> date \<Rightarrow> weight_body reply \<times> server" where
  "weight_reading st lockerId weight now =
     (case weight of
        None \<Rightarrow> ((400, InvalidWeight), st)
      | Some weightValue \<Rightarrow>
          if weightValue < 0 \<or> 50 < weightValue then ((400, InvalidWeight), st)
          else
           (case map_of (weightSessions st) lockerId of
              None \<Rightarrow> ((404, NoActiveSession), st)
            | Some s \<Rightarrow>
                if \<not> active s then ((404, NoActiveSession), st)
                else
                  let s1 = s\<lparr>readings := readings s @
                                [\<lparr>rd_weight = weightValue, rd_timestamp = now\<rparr>]\<rparr>
                  in ((200, ReadingRecorded (length (readings s1)) weightValue (ws_resi s)),
                      st\<lparr>weightSessions := AList.update lockerId s1 (weightSessions st)\<rparr>)))"

text \<open>The weight that \<^verbatim>\<open>finalize\<close> computes from the readings of a session,
  \<^verbatim>\<open>parseFloat(Math.abs(initialWeight - finalWeight).toFixed(3))\<close>; it is computed
  only when there are at least two readings, so both indices are in range.\<close>

definition packageWeight :: "reading list \<Rightarrow> number" where
  "packageWeight rs =
     round3 \<bar>fl (rd_weight (rs ! 0) - rd_weight (rs ! (length rs - 1)))\<bar>"

text \<open>\<^verbatim>\<open>POST /api/locker/:lockerId/weight/finalize\<close>.\<close>

definition weight_finalize ::
  "server \<Rightarrow> string \<Rightarrow> date \<Rightarrow> weight_body reply \<times> server" where
  "weight_finalize st lockerId now =
     (case map_of (weightSessions st) lockerId of
        None \<Rightarrow> ((404, NoActiveSession), st)
      | Some s \<Rightarrow>
          if \<not> active s then ((404, NoActiveSession), st)
          else if length (readings s) < 2 then ((400, InsufficientReadings), st)
          else
            let initialWeight = rd_weight (readings s ! 0);
                finalWeight = rd_weight (readings s ! (length (readings s) - 1));
                pw = packageWeight (readings s);
                closed = AList.update lockerId (s\<lparr>active := False\<rparr>) (weightSessions st)
            in (case findOne (by_resi (ws_resi s)) (shipments st) of
                 None \<Rightarrow> ((404, ShipmentMissing), st\<lparr>weightSessions := closed\<rparr>)
               | Some shipment \<Rightarrow>
                   (case sh_weight shipment of
                      Some w \<Rightarrow>
                        ((200, AlreadyRecorded (sh_resi shipment) w
                                 (sh_weightRecordedAt shipment)),
                         st\<lparr>weightSessions := closed\<rparr>)
                    | None \<Rightarrow>
                        let shipment1 = shipment
                              \<lparr>sh_weight := Some pw,
                               sh_weightRecordedAt := Some now,
                               sh_logs := sh_logs shipment @
                                 [\<lparr>event = Some ''weight_recorded_differential'',
                                   log_lockerId = lockerId,
                                   log_resi = Some (sh_resi shipment),
                                   log_timestamp = now,
                                   log_extra = Differential initialWeight finalWeight pw
                                                 (length (readings s))\<rparr>]\<rparr>
                        in ((200, WeightRecorded (sh_resi shipment) pw now initialWeight
                                    finalWeight (length (readings s))),
                            st\<lparr>shipments :=
                                 save (by_resi (ws_resi s)) shipment1 (shipments st),
                               weightSessions := closed\<rparr>))))"

section \<open>Validation of a tracking number\<close>

text \<open>
  The tracking provider is a function from a call (carrier, tracking number, the
  auxiliary number sent for JNE) to what \<^verbatim>\<open>axios.get\<close> does: it throws (time-out,
  connection error, HTTP error) or returns a body with its \<^verbatim>\<open>status\<close> and \<^verbatim>\<open>data\<close>.
  The handler returns, besides its reply and the new state, the calls it made, in order.
\<close>

record payload =
  pl_summary :: "json option"
  pl_detail :: "json option"
  pl_history :: "json option"

datatype provider_reply = Threw | Response "nat option" "payload option"

type_synonym call = "string \<times> string \<times> string option"
type_synonym provider = "call \<Rightarrow> provider_reply"

datatype js_error = ReferenceError string | TypeError string

datatype resi_body =
    ResiRequired
  | AlreadySubmitted string date
  | FromCache string string "string option" "binderbyte_data option" date
  | ServiceUnavailable
  | NotFound string
  | PatternAccepted string string
  | Validated string string "string option" payload date
  | InternalError

definition courierPriority :: "string list" where
  "courierPriority =
     [''jne'', ''jnt'', ''sicepat'', ''anteraja'', ''ninja'', ''pos'', ''tiki'', ''wahana'',
      ''lion'', ''rpx'']"

text \<open>The identifier \<^verbatim>\<open>highConfidence\<close> is read once, in the branch of
  \<^verbatim>\<open>POST /api/customer/manual-resi\<close> that follows an exhausted loop, and is declared
  nowhere in the program: reading it throws a \<^verbatim>\<open>ReferenceError\<close>.\<close>

definition highConfidence :: "js_error + bool" where
  "highConfidence = Inl (ReferenceError ''highConfidence is not defined'')"

text \<open>\<^verbatim>\<open>!jneNumber || !/^\d{5}$/.test(jneNumber.trim())\<close>.\<close>

definition jne_number_unusable :: "string option \<Rightarrow> bool" where
  "jne_number_unusable j =
     (case j of None \<Rightarrow> True
      | Some n \<Rightarrow> n = [] \<or> \<not> matches [Rep is_digit 5 5] (trim n))"

text \<open>The loop over the carriers: JNE is skipped without a call when its number is
  unusable; the first reply with status 200 and a summary ends the loop; a throw or
  any other reply moves on to the next carrier.\<close>

fun try_couriers ::
  "provider \<Rightarrow> string \<Rightarrow> string option \<Rightarrow> string list
     \<Rightarrow> (string \<times> payload) option \<times> call list" where
  "try_couriers api awb j [] = (None, [])"
| "try_couriers api awb j (courier # rest) =
     (if courier = ''jne'' \<and> jne_number_unusable j then try_couriers api awb j rest
      else
        let c = (courier, awb, if courier = ''jne'' then map_option trim j else None);
            hit = (case api c of
                     Response (Some code) (Some d) \<Rightarrow>
                       if code = 200 \<and> pl_summary d \<noteq> None then Some d else None
                   | _ \<Rightarrow> None)
        in (case hit of
              Some d \<Rightarrow> (Some (courier, d), [c])
            | None \<Rightarrow>
                let (r, cs) = try_couriers api awb j rest in (r, c # cs)))"

text \<open>The locker given to a new record: the first locker of the customer that is
  online and active.\<close>

definition availableLocker :: "server \<Rightarrow> string \<Rightarrow> locker option" where
  "availableLocker st userId =
     findOne (\<lambda>l. lk_customerId l = Some userId \<and> lk_status l = ''online'' \<and> isActive l)
       (lockers st)"

definition assign_locker :: "server \<Rightarrow> string \<Rightarrow> date \<Rightarrow> tracking \<Rightarrow> tracking" where
  "assign_locker st userId now t =
     (case availableLocker st userId of
        Some l \<Rightarrow> t\<lparr>assignedLockerId := Some (lk_lockerId l), lockerAssignedAt := Some now\<rparr>
      | None \<Rightarrow> t)"

definition pattern_summary :: "string \<Rightarrow> string \<Rightarrow> json" where
  "pattern_summary courier awb =
     ''{courier: '' @ courier @ '', status: unknown, waybill: '' @ awb @ ''}''"

text \<open>\<^verbatim>\<open>POST /api/customer/manual-resi\<close>, for the authenticated customer \<open>userId\<close>;
  \<open>key\<close> is the configured \<^verbatim>\<open>BINDERBYTE_API_KEY\<close>. The record is kept under the
  upper-case form of the trimmed number; there is no value when that form has a code
  unit outside \<^typ>\<open>char\<close>.\<close>

definition manual_resi ::
  "server \<Rightarrow> string \<Rightarrow> provider \<Rightarrow> string \<Rightarrow> string option \<Rightarrow> string option \<Rightarrow> date
     \<Rightarrow> (resi_body reply \<times> server \<times> call list) option" where
  "manual_resi st key api userId resi_in jneNumber_in now =
     (case resi_in of
        None \<Rightarrow> Some ((400, ResiRequired), st, [])
      | Some resi \<Rightarrow>
          if resi = [] \<or> trim resi = [] then Some ((400, ResiRequired), st, [])
          else
           (case toUpperCase (trim resi) of
              None \<Rightarrow> None
            | Some cleanResi \<Rightarrow> Some
           (case findOne (\<lambda>t. tr_resi t = cleanResi \<and> tr_customerId t = userId)
                   (trackings st) of
              Some existing \<Rightarrow>
                ((400, AlreadySubmitted cleanResi (tr_createdAt existing)), st, [])
            | None \<Rightarrow>
                (case findOne (\<lambda>t. tr_resi t = cleanResi \<and> validated t) (trackings st) of
                   Some cachedResi \<Rightarrow>
                     (case tr_courierType cachedResi of
                        None \<Rightarrow> ((500, InternalError), st, [])
                      | Some cachedCourier \<Rightarrow>
                          let t = assign_locker st userId now
                                \<lparr>tr_resi = cleanResi,
                                 tr_courierType = Some cachedCourier,
                                 tr_customerId = userId,
                                 tr_note = ValidatedFromCache cachedCourier,
                                 validated = True,
                                 validationAttempted = True,
                                 binderbyteData = binderbyteData cachedResi,
                                 assignedLockerId = None,
                                 lockerAssignedAt = None,
                                 jneNumber = None,
                                 tr_createdAt = now\<rparr>
                          in ((200, FromCache cleanResi cachedCourier (assignedLockerId t)
                                      (binderbyteData cachedResi) (tr_createdAt t)),
                              st\<lparr>trackings := trackings st @ [t]\<rparr>, []))
                 | None \<Rightarrow>
                     if key = [] then ((503, ServiceUnavailable), st, [])
                     else
                       let (hit, calls) =
                             try_couriers api cleanResi jneNumber_in courierPriority
                       in (case hit of
                            None \<Rightarrow>
                              (case highConfidence of
                                 Inl thrown \<Rightarrow> ((500, InternalError), st, calls)
                               | Inr high \<Rightarrow>
                                   if high \<and> length courierPriority = 1
                                   then
                                     let detectedCourier = hd courierPriority;
                                         t = \<lparr>tr_resi = cleanResi,
                                              tr_courierType = Some detectedCourier,
                                              tr_customerId = userId,
                                              tr_note = PatternValidated,
                                              validated = True,
                                              validationAttempted = True,
                                              binderbyteData =
                                                Some \<lparr>bb_summary =
                                                        Some (pattern_summary detectedCourier
                                                                cleanResi),
                                                      bb_validatedAt = Some now\<rparr>,
                                              assignedLockerId = None,
                                              lockerAssignedAt = None,
                                              jneNumber = None,
                                              tr_createdAt = now\<rparr>
                                     in ((200, PatternAccepted cleanResi detectedCourier),
                                         st\<lparr>trackings := trackings st @ [t]\<rparr>, calls)
                                   else ((404, NotFound cleanResi), st, calls))
                          | Some (validCourier, binderbyteResult) \<Rightarrow>
                              let t = assign_locker st userId now
                                    \<lparr>tr_resi = cleanResi,
                                     tr_courierType = Some validCourier,
                                     tr_customerId = userId,
                                     tr_note = ValidatedByBinderbyte,
                                     validated = True,
                                     validationAttempted = True,
                                     binderbyteData =
                                       Some \<lparr>bb_summary = pl_summary binderbyteResult,
                                             bb_validatedAt = Some now\<rparr>,
                                     assignedLockerId = None,
                                     lockerAssignedAt = None,
                                     jneNumber =
                                       (if validCourier = ''jne'' \<and> \<not> falsy jneNumber_in
                                        then map_option trim jneNumber_in else None),
                                     tr_createdAt = now\<rparr>
                              in ((200, Validated cleanResi validCourier (assignedLockerId t)
                                          binderbyteResult (tr_createdAt t)),
                                  st\<lparr>trackings := trackings st @ [t]\<rparr>, calls))))))"




section \<open>Sequences of deposits and the order of the statuses\<close>












text \<open>The order of the statuses: a shipment waits for its deposit
  (\<^verbatim>\<open>pending_locker\<close>, and any status not listed), is delivered to the locker, is ready
  for pickup, and is with the customer, which the server stores as \<^verbatim>\<open>completed\<close>.\<close>

definition status_rank :: "string \<Rightarrow> nat" where
  "status_rank s =
     (if s = ''delivered_to_locker'' then 1
      else if s = ''ready_for_pickup'' then 2
      else if s = ''completed'' \<or> s = ''delivered_to_customer'' then 3
      else 0)"

section \<open>Example states\<close>

text \<open>
  What \<^verbatim>\<open>POST /api/shipments\<close> leaves after one tracking number has been assigned to
  a locker: the shipment waits in \<^verbatim>\<open>pending_locker\<close> and its number is in the
  locker's \<^verbatim>\<open>pendingResi\<close>.
\<close>

definition demo_shipment :: shipment where
  "demo_shipment =
     \<lparr>sh_resi = ''RESI0001'', sh_lockerId = ''L1'', sh_status = ''pending_locker'',
      sh_weight = None, sh_weightRecordedAt = None, sh_logs = [],
      sh_courierId = ''CR-1'', sh_courierName = ''Budi'', sh_courierPlate = ''B1234XY'',
      sh_customerId = ''100001'', deliveredToLockerAt = None, pickedUpAt = None\<rparr>"

definition demo_locker :: locker where
  "demo_locker =
     \<lparr>lk_lockerId = ''L1'', lockerToken = Some ''LK-L1-00ff10ab0509'',
      lk_customerId = Some ''100001'', courierHistory = [], debugInfo = None,
      pendingResi = [''RESI0001''], lk_command = None, isActive = True,
      lk_status = ''online'', tokenUpdatedAt = None, lastHeartbeat = None\<rparr>"

definition demo_server :: server where
  "demo_server =
     \<lparr>shipments = [demo_shipment], lockers = [demo_locker], trackings = [],
      weightSessions = []\<rparr>"




text \<open>A weight session on the first locker with the readings 5.0, 4.8, 4.6, 4.5, 4.3,
  each the double that \<^verbatim>\<open>parseFloat\<close> returns for it.\<close>

definition spec_readings :: "reading list" where
  "spec_readings =
     [\<lparr>rd_weight = fl 5, rd_timestamp = 2001\<rparr>,
      \<lparr>rd_weight = fl (48 / 10), rd_timestamp = 2002\<rparr>,
      \<lparr>rd_weight = fl (46 / 10), rd_timestamp = 2003\<rparr>,
      \<lparr>rd_weight = fl (45 / 10), rd_timestamp = 2004\<rparr>,
      \<lparr>rd_weight = fl (43 / 10), rd_timestamp = 2005\<rparr>]"

definition weighing_server :: server where
  "weighing_server =
     demo_server\<lparr>weightSessions :=
       [(''L1'', \<lparr>ws_resi = ''RESI0001'', startedAt = 2000, readings = spec_readings,
                  active = True\<rparr>)]\<rparr>"

text \<open>The first state with a session just started on its locker.\<close>

definition started_server :: server where
  "started_server =
     demo_server\<lparr>weightSessions :=
       [(''L1'', \<lparr>ws_resi = ''RESI0001'', startedAt = 2000, readings = [],
                  active = True\<rparr>)]\<rparr>"

text \<open>A session whose two readings, 0.0004 and 0, differ by less than half a gram.\<close>

definition fine_server :: server where
  "fine_server =
     demo_server\<lparr>weightSessions :=
       [(''L1'', \<lparr>ws_resi = ''RESI0001'', startedAt = 2000,
                  readings = [\<lparr>rd_weight = fl (4 / 10000), rd_timestamp = 2001\<rparr>,
                              \<lparr>rd_weight = fl 0, rd_timestamp = 2002\<rparr>],
                  active = True\<rparr>)]\<rparr>"

text \<open>The weighing session again, for a shipment whose weight was recorded before.\<close>

definition recorded_server :: server where
  "recorded_server =
     weighing_server\<lparr>shipments :=
       [demo_shipment\<lparr>sh_weight := Some (fl (7 / 10)), sh_weightRecordedAt := Some 1500\<rparr>]\<rparr>"

text \<open>Two tracking providers: one that confirms nothing (every call times out), and
  one that knows a single J&T tracking number.\<close>

definition silent_provider :: provider where
  "silent_provider c = Threw"





section \<open>Properties of the carrier detector\<close>

lemma matches_Rep_single:
  "matches [Rep P lo hi] s = (lo \<le> length s \<and> length s \<le> hi \<and> list_all P s)"
  by (auto simp: list_ex_iff)

declare matches.simps(3) [simp del]

lemma upper_char_digit: "is_digit c \<Longrightarrow> upper_char c = c"
  by (auto simp: is_digit_def upper_char_def is_lower_def)

lemma is_digit_alnum: "is_digit c \<Longrightarrow> is_alnum c"
  by (simp add: is_alnum_def)

lemma ci_prefix_digit:
  assumes "s \<noteq> []" "is_digit (hd s)" "p \<noteq> []" "\<not> is_digit (hd p)"
  shows "\<not> ci_prefix p s"
proof
  assume "ci_prefix p s"
  then have "canonicalize (take (length p) s) = p"
    by (simp add: ci_prefix_def)
  moreover from assms obtain c cs where s: "s = c # cs" by (cases s) auto
  moreover from assms obtain q qs where p: "p = q # qs" by (cases p) auto
  ultimately have "upper_char c = q"
    by (simp add: canonicalize_def)
  with assms s p show False
    by (simp add: upper_char_digit)
qed

lemma digits_skip_letter_rules:
  assumes "s \<noteq> []" "list_all is_digit s"
  shows "\<not> jne_rule s" "\<not> jnt_rule s"
proof -
  from assms have d: "is_digit (hd s)" by (cases s) auto
  have "\<not> ci_prefix ''JNE'' s" "\<not> ci_prefix ''CGK'' s"
       "\<not> ci_prefix ''JT'' s" "\<not> ci_prefix ''JX'' s"
    using assms(1) d by (simp_all add: ci_prefix_digit is_digit_def)
  then show "\<not> jne_rule s" "\<not> jnt_rule s"
    by (simp_all add: jne_rule_def jnt_rule_def)
qed

text \<open>
  Claim C10. A tracking number of 10 to 15 letters and digits that the JNE rule and the
  J&T rule do not match is classified as \<^verbatim>\<open>anteraja\<close> (the TSA rule gives the same
  carrier, so it needs no mention); in particular every number of exactly 12 digits is.
  The rules below the AnterAja rule (SiCepat, Ninja, POS) are therefore never reached
  by such a number.
\<close>

theorem detect_anteraja:
  "(10 \<le> length resi \<and> length resi \<le> 15 \<and> list_all is_alnum resi
      \<and> \<not> jne_rule resi \<and> \<not> jnt_rule resi
      \<longrightarrow> detectCourierType resi = found ''anteraja'')
   \<and> (length resi = 12 \<and> list_all is_digit resi
      \<longrightarrow> detectCourierType resi = found ''anteraja'')"
proof (intro conjI impI)
  assume a: "10 \<le> length resi \<and> length resi \<le> 15 \<and> list_all is_alnum resi
      \<and> \<not> jne_rule resi \<and> \<not> jnt_rule resi"
  then have "anteraja_rule resi"
    by (simp add: anteraja_rule_def matches_Rep_single)
  moreover from a have "resi \<noteq> []" by auto
  ultimately show "detectCourierType resi = found ''anteraja''"
    using a by (simp add: detectCourierType_def)
next
  assume a: "length resi = 12 \<and> list_all is_digit resi"
  then have ne: "resi \<noteq> []" by auto
  from a have "list_all is_alnum resi"
    by (auto simp: list_all_iff is_digit_alnum)
  with a have "anteraja_rule resi"
    by (simp add: anteraja_rule_def matches_Rep_single)
  moreover have "\<not> jne_rule resi" "\<not> jnt_rule resi"
    using digits_skip_letter_rules ne a by auto
  ultimately show "detectCourierType resi = found ''anteraja''"
    using a ne by (simp add: detectCourierType_def)
qed

theorem detect_anteraja_witness:
  "detectCourierType ''NV12345678'' = found ''anteraja''
   \<and> detectCourierType ''123456789012'' = found ''anteraja''"
proof -
  have 1: "10 \<le> length ''NV12345678'' \<and> length ''NV12345678'' \<le> 15
      \<and> list_all is_alnum ''NV12345678''
      \<and> \<not> jne_rule ''NV12345678'' \<and> \<not> jnt_rule ''NV12345678''"
    by code_simp
  have 2: "length ''123456789012'' = 12 \<and> list_all is_digit ''123456789012''"
    by code_simp
  from 1 2 detect_anteraja [of "''NV12345678''"] detect_anteraja [of "''123456789012''"]
  show ?thesis by blast
qed

section \<open>Properties of the deposit protocol\<close>

lemma find_save:
  "find q xs = Some x \<Longrightarrow> q d \<Longrightarrow> find q (save q d xs) = Some d"
  by (induction xs) (auto split: if_splits)

lemma token_rejected_debug [simp]:
  "token_rejected (l\<lparr>debugInfo := d\<rparr>) p = token_rejected l p"
  by (simp add: token_rejected_def)







lemma find_None_set: "find q xs = None \<longleftrightarrow> (\<forall>x\<in>set xs. \<not> q x)"
  by (auto simp: find_None_iff)


















section \<open>Properties of the weight sessions\<close>

lemma map_of_update_same: "map_of (AList.update k v al) k = Some v"
  by (simp add: update_conv')

lemma packageWeight_ends:
  "packageWeight (a # mid @ [b]) = round3 \<bar>fl (rd_weight a - rd_weight b)\<bar>"
  by (simp add: packageWeight_def nth_append)

lemma weighing_session:
  "map_of (weightSessions weighing_server) ''L1''
     = Some \<lparr>ws_resi = ''RESI0001'', startedAt = 2000, readings = spec_readings,
             active = True\<rparr>"
  by (simp add: weighing_server_def)

lemma weighing_shipment:
  "findOne (by_resi ''RESI0001'') (shipments weighing_server) = Some demo_shipment"
  by (simp add: weighing_server_def demo_server_def findOne_def by_resi_def demo_shipment_def)

text \<open>The weight of the readings 5.0, 4.8, 4.6, 4.5, 4.3 is the double 0.7; the
  difference of the doubles 5.0 and 4.3 itself is not: the rounding to three decimals
  makes it so.\<close>

lemma spec_example_weight: "packageWeight spec_readings = fl (7 / 10)"
  by code_simp

lemma spec_example_unrounded: "\<bar>fl (fl 5 - fl (43 / 10))\<bar> \<noteq> fl (7 / 10)"
  by code_simp

text \<open>
  Claim C5, as amended. For an active session, \<^verbatim>\<open>finalize\<close> fails with
  \<^verbatim>\<open>InsufficientReadings\<close> (status 400) when there are fewer than two readings;
  otherwise, for a shipment with no weight yet, it records and returns the absolute
  difference of the first and the last reading rounded to three decimals
  (\<^verbatim>\<open>toFixed(3)\<close>), whatever the readings in between. For the readings
  5.0, 4.8, 4.6, 4.5, 4.3 that is 0.7 (see the witness).
\<close>

theorem finalize_differential:
  assumes "map_of (weightSessions st) lockerId = Some s" "active s"
  shows "(length (readings s) < 2
          \<longrightarrow> weight_finalize st lockerId now = ((400, InsufficientReadings), st))
       \<and> (2 \<le> length (readings s) \<and> findOne (by_resi (ws_resi s)) (shipments st) = Some sh
            \<and> sh_weight sh = None
          \<longrightarrow> (\<exists>st' sh'.
                weight_finalize st lockerId now
                  = ((200, WeightRecorded (sh_resi sh)
                             (round3 \<bar>fl (rd_weight (readings s ! 0)
                                           - rd_weight (readings s ! (length (readings s) - 1)))\<bar>)
                             now (rd_weight (readings s ! 0))
                             (rd_weight (readings s ! (length (readings s) - 1)))
                             (length (readings s))), st')
                \<and> findOne (by_resi (ws_resi s)) (shipments st') = Some sh'
                \<and> sh_weight sh'
                    = Some (round3 \<bar>fl (rd_weight (readings s ! 0)
                                       - rd_weight (readings s ! (length (readings s) - 1)))\<bar>)))
       \<and> packageWeight (a # mid @ [b]) = round3 \<bar>fl (rd_weight a - rd_weight b)\<bar>"
proof (intro conjI impI)
  assume "length (readings s) < 2"
  with assms show "weight_finalize st lockerId now = ((400, InsufficientReadings), st)"
    by (simp add: weight_finalize_def)
next
  assume a: "2 \<le> length (readings s) \<and> findOne (by_resi (ws_resi s)) (shipments st) = Some sh
            \<and> sh_weight sh = None"
  then have q: "by_resi (ws_resi s) sh"
    by (auto simp: findOne_def dest: find_Some_iff [THEN iffD1])
  from a assms q show "\<exists>st' sh'.
                weight_finalize st lockerId now
                  = ((200, WeightRecorded (sh_resi sh)
                             (round3 \<bar>fl (rd_weight (readings s ! 0)
                                           - rd_weight (readings s ! (length (readings s) - 1)))\<bar>)
                             now (rd_weight (readings s ! 0))
                             (rd_weight (readings s ! (length (readings s) - 1)))
                             (length (readings s))), st')
                \<and> findOne (by_resi (ws_resi s)) (shipments st') = Some sh'
                \<and> sh_weight sh'
                    = Some (round3 \<bar>fl (rd_weight (readings s ! 0)
                                       - rd_weight (readings s ! (length (readings s) - 1)))\<bar>)"
    by (simp add: weight_finalize_def Let_def packageWeight_def findOne_def find_save by_resi_def)
next
  show "packageWeight (a # mid @ [b]) = round3 \<bar>fl (rd_weight a - rd_weight b)\<bar>"
    by (rule packageWeight_ends)
qed

theorem finalize_differential_witness:
  "fst (weight_finalize weighing_server ''L1'' 3000)
     = (200, WeightRecorded ''RESI0001'' (fl (7 / 10)) 3000 (fl 5) (fl (43 / 10)) 5)
   \<and> weight_start demo_server ''L1'' (Some ''resi0001 '') 2000
     = Some ((200, SessionStarted ''L1'' ''RESI0001''), started_server)
   \<and> weight_finalize started_server ''L1'' 3000 = ((400, InsufficientReadings), started_server)"
proof -
  have w: "round3 \<bar>fl (rd_weight (spec_readings ! 0)
                        - rd_weight (spec_readings ! (length spec_readings - 1)))\<bar> = fl (7 / 10)"
    using spec_example_weight by (simp add: packageWeight_def)
  have r: "rd_weight (spec_readings ! 0) = fl 5"
          "rd_weight (spec_readings ! (length spec_readings - 1)) = fl (43 / 10)"
          "length spec_readings = 5"
    by (simp_all add: spec_readings_def)
  have d: "sh_resi demo_shipment = ''RESI0001''" "sh_weight demo_shipment = None"
    by (simp_all add: demo_shipment_def)
  have s0: "map_of (weightSessions started_server) ''L1''
            = Some \<lparr>ws_resi = ''RESI0001'', startedAt = 2000, readings = [], active = True\<rparr>"
    by (simp add: started_server_def)
  have s1: "weight_start demo_server ''L1'' (Some ''resi0001 '') 2000
            = Some ((200, SessionStarted ''L1'' ''RESI0001''), started_server)"
    by code_simp
  from s1 finalize_differential [OF weighing_session, of 3000 demo_shipment]
       finalize_differential [OF s0, of 3000]
       weighing_shipment w r d
  show ?thesis by auto
qed

text \<open>Two readings that differ by four tenths of a gram give the weight 0, not their
  difference.\<close>

theorem finalize_rounding_counterexample:
  "fst (weight_finalize fine_server ''L1'' 3000)
     = (200, WeightRecorded ''RESI0001'' 0 3000 (fl (4 / 10000)) 0 2)
   \<and> \<bar>fl (4 / 10000) - 0\<bar> \<noteq> 0"
  by code_simp

lemma recorded_session:
  "map_of (weightSessions recorded_server) ''L1''
     = Some \<lparr>ws_resi = ''RESI0001'', startedAt = 2000, readings = spec_readings,
             active = True\<rparr>"
  by (simp add: recorded_server_def weighing_server_def)

lemma recorded_shipment:
  "findOne (by_resi ''RESI0001'') (shipments recorded_server)
     = Some (demo_shipment\<lparr>sh_weight := Some (fl (7 / 10)), sh_weightRecordedAt := Some 1500\<rparr>)"
  by (simp add: recorded_server_def findOne_def by_resi_def demo_shipment_def)

text \<open>
  Claim C4, as amended. When the shipment of an active session with at least two
  readings already has a weight, \<^verbatim>\<open>finalize\<close> returns success with the stored weight
  and \<^verbatim>\<open>weightRecordedAt\<close>, leaves every shipment as it was and marks the session
  inactive; a second \<^verbatim>\<open>finalize\<close> in succession therefore fails with
  \<^verbatim>\<open>NoActiveSession\<close> (status 404), again changing nothing.
\<close>

theorem finalize_recorded:
  assumes "map_of (weightSessions st) lockerId = Some s" "active s"
      and "2 \<le> length (readings s)"
      and "findOne (by_resi (ws_resi s)) (shipments st) = Some sh"
      and "sh_weight sh = Some w"
  shows "\<exists>st1. weight_finalize st lockerId now
                = ((200, AlreadyRecorded (sh_resi sh) w (sh_weightRecordedAt sh)), st1)
             \<and> shipments st1 = shipments st
             \<and> map_of (weightSessions st1) lockerId = Some (s\<lparr>active := False\<rparr>)
             \<and> weight_finalize st1 lockerId later = ((404, NoActiveSession), st1)"
  using assms
  by (simp add: weight_finalize_def Let_def map_of_update_same)

theorem finalize_recorded_witness:
  "fst (weight_finalize recorded_server ''L1'' 3000)
     = (200, AlreadyRecorded ''RESI0001'' (fl (7 / 10)) (Some 1500))
   \<and> shipments (snd (weight_finalize recorded_server ''L1'' 3000)) = shipments recorded_server"
proof -
  have l: "2 \<le> length spec_readings"
    by (simp add: spec_readings_def)
  from finalize_recorded [OF recorded_session _ _ _ _, of _ "fl (7 / 10)" 3000 3001]
       recorded_shipment l
  show ?thesis
    by (auto simp: demo_shipment_def)
qed

text \<open>The second of two calls in succession fails, whether the weight was recorded
  before the first call or by it.\<close>

theorem finalize_twice_counterexample:
  "fst (weight_finalize recorded_server ''L1'' 3000)
     = (200, AlreadyRecorded ''RESI0001'' (fl (7 / 10)) (Some 1500))
   \<and> fst (weight_finalize (snd (weight_finalize recorded_server ''L1'' 3000)) ''L1'' 3001)
     = (404, NoActiveSession)
   \<and> fst (weight_finalize (snd (weight_finalize weighing_server ''L1'' 3000)) ''L1'' 3001)
     = (404, NoActiveSession)"
  by code_simp

section \<open>Properties of the validation\<close>

lemma trim_Nil [simp]: "trim [] = []"
  by (simp add: trim_def)

text \<open>The upper-case form of Latin-1 letters, of the sharp s and of the micro
  sign.\<close>

lemma toUpperCase_latin1:
  "toUpperCase (''caf'' @ [char_of (233 :: nat)]) = Some (''CAF'' @ [char_of (201 :: nat)])"
  "toUpperCase (''stra'' @ [char_of (223 :: nat)] @ ''e'') = Some ''STRASSE''"
  "toUpperCase [char_of (181 :: nat)] = None"
  "trim ([char_of (160 :: nat)] @ ''ab '') = ''ab''"
  by code_simp+

text \<open>A submission that misses the cache and finds no carrier never reaches the
  replies written for it: reading \<^verbatim>\<open>highConfidence\<close> throws, and the handler's
  \<^verbatim>\<open>catch\<close> answers with status 500.\<close>

lemma exhausted_is_internal_error:
  assumes "trim resi \<noteq> []" "key \<noteq> []"
      and "toUpperCase (trim resi) = Some clean"
      and "findOne (\<lambda>t. tr_resi t = clean \<and> tr_customerId t = userId) (trackings st) = None"
      and "findOne (\<lambda>t. tr_resi t = clean \<and> validated t) (trackings st) = None"
      and "fst (try_couriers api clean jne courierPriority) = None"
  shows "manual_resi st key api userId (Some resi) jne now
           = Some ((500, InternalError), st, snd (try_couriers api clean jne courierPriority))"
proof -
  from assms(1) have ne: "resi \<noteq> []" by auto
  obtain hit calls where
    tc: "try_couriers api clean jne courierPriority = (hit, calls)"
    by force
  with assms(6) have "hit = None" by simp
  with assms ne tc show ?thesis
    by (simp add: manual_resi_def Let_def highConfidence_def)
qed

text \<open>
  Claim C1. A customer submits the 12-digit number 123456789012; no record of it is
  cached and the provider confirms none of the carriers. The handler tries the nine
  carriers that need no auxiliary number and then answers with status 500 and changes
  nothing: it neither fails with \<^verbatim>\<open>NotFound\<close> (status 404) nor accepts the number
  with the carrier its pattern implies.
\<close>

theorem exhausted_submission:
  "manual_resi demo_server ''key'' silent_provider ''100001'' (Some ''123456789012'') None 5000
     = Some ((500, InternalError), demo_server,
        [(''jnt'', ''123456789012'', None), (''sicepat'', ''123456789012'', None),
         (''anteraja'', ''123456789012'', None), (''ninja'', ''123456789012'', None),
         (''pos'', ''123456789012'', None), (''tiki'', ''123456789012'', None),
         (''wahana'', ''123456789012'', None), (''lion'', ''123456789012'', None),
         (''rpx'', ''123456789012'', None)])"
  by code_simp



lemma assign_locker_fields [simp]:
  "tr_resi (assign_locker st u now t) = tr_resi t"
  "tr_courierType (assign_locker st u now t) = tr_courierType t"
  "tr_customerId (assign_locker st u now t) = tr_customerId t"
  "validated (assign_locker st u now t) = validated t"
  "binderbyteData (assign_locker st u now t) = binderbyteData t"
  by (simp_all add: assign_locker_def split: option.splits)






section \<open>Order of the statuses\<close>

text \<open>\<^verbatim>\<open>deposit-resi\<close>, \<^verbatim>\<open>deposit-token\<close>, the log events of the controller and
  \<^verbatim>\<open>weight/finalize\<close> leave every shipment at its status or move it forward.\<close>
lemma save_forward:
  assumes "find q xs = Some x"
      and "status_rank (sh_status x) \<le> status_rank (sh_status d)"
  shows "list_all2 (\<lambda>a b. status_rank (sh_status a) \<le> status_rank (sh_status b)) xs (save q d xs)"
  using assms
proof (induction xs)
  case Nil
  then show ?case by simp
next
  case (Cons a xs)
  then show ?case
    by (auto simp: list_all2_refl split: if_splits)
qed

lemma rank_pending [simp]: "status_rank ''pending_locker'' = 0"
  by (simp add: status_rank_def)

lemma rank_delivered [simp]: "status_rank ''delivered_to_locker'' = 1"
  by (simp add: status_rank_def)

lemma deposit_resi_forward:
  "list_all2 (\<lambda>a b. status_rank (sh_status a) \<le> status_rank (sh_status b))
     (shipments st) (shipments (snd (deposit_resi st l t r d c now bytes)))"
  apply (simp add: deposit_resi_def Let_def findOne_def list_all2_refl split: option.splits)
  apply (intro allI impI conjI)
  apply (rule save_forward, assumption, simp)+
  done

lemma deposit_token_forward:
  "list_all2 (\<lambda>a b. status_rank (sh_status a) \<le> status_rank (sh_status b))
     (shipments st) (shipments (snd (deposit_token st l t r w now bytes)))"
  apply (simp add: deposit_token_def Let_def findOne_def list_all2_refl split: option.splits)
  apply (intro allI impI conjI)
  apply (rule save_forward, assumption, simp)+
  done


lemma rank_top: "status_rank s \<le> status_rank ''completed''"
  by (simp add: status_rank_def)

lemma rank_ready [simp]: "status_rank ''ready_for_pickup'' = 2"
  by (simp add: status_rank_def)

lemma locker_log_shipments:
  "shipments (snd (locker_log st l e r x now)) = shipments st
   \<or> (\<exists>resi sh d. find (by_resi resi) (shipments st) = Some sh
         \<and> shipments (snd (locker_log st l e r x now)) = save (by_resi resi) d (shipments st)
         \<and> status_rank (sh_status sh) \<le> status_rank (sh_status d))"
proof (cases "case r of Some resi \<Rightarrow> if resi = [] then None
                          else findOne (by_resi resi) (shipments st) | None \<Rightarrow> None")
  case None
  then have "shipments (snd (locker_log st l e r x now)) = shipments st"
    by (simp add: locker_log_def Let_def split: option.splits)
  then show ?thesis ..
next
  case (Some sh)
  then obtain resi where r: "r = Some resi" "resi \<noteq> []"
      "find (by_resi resi) (shipments st) = Some sh"
    by (cases r) (auto simp: findOne_def split: if_splits)
  then have sr: "sh_resi sh = resi"
    by (auto simp: by_resi_def dest: find_Some_iff [THEN iffD1])
  have "\<exists>d. shipments (snd (locker_log st l e r x now)) = save (by_resi resi) d (shipments st)
           \<and> status_rank (sh_status sh) \<le> status_rank (sh_status d)"
    using r sr
    apply (simp add: locker_log_def Let_def findOne_def split: option.splits)
    apply (intro allI impI conjI; (rule exI, rule conjI, rule refl, simp add: rank_top))
    done
  with r show ?thesis by blast
qed

lemma locker_log_forward:
  "list_all2 (\<lambda>a b. status_rank (sh_status a) \<le> status_rank (sh_status b))
     (shipments st) (shipments (snd (locker_log st l e r x now)))"
  using locker_log_shipments [of st l e r x now]
  by (auto simp: list_all2_refl intro: save_forward)

lemma weight_finalize_forward:
  "list_all2 (\<lambda>a b. status_rank (sh_status a) \<le> status_rank (sh_status b))
     (shipments st) (shipments (snd (weight_finalize st l now)))"
  apply (simp add: weight_finalize_def Let_def findOne_def list_all2_refl split: option.splits)
  apply (intro allI impI conjI)
  apply (rule save_forward, assumption, simp)+
  done

text \<open>
  Claim C7. The four operations above never move a status backwards. The older
  deposit route \<^verbatim>\<open>POST /api/locker/:lockerId/deposit\<close> sets \<^verbatim>\<open>delivered_to_locker\<close>
  without looking at the status: when the customer has opened the locker before the
  courier came (the controller logs \<^verbatim>\<open>opened_by_customer\<close>, the shipment becomes
  \<^verbatim>\<open>completed\<close> and its number stays in \<^verbatim>\<open>pendingResi\<close>), a deposit through that route
  succeeds and takes the shipment back from \<^verbatim>\<open>completed\<close> to
  \<^verbatim>\<open>delivered_to_locker\<close>.
\<close>

theorem status_regression:
  "map sh_status (shipments demo_server) = [''pending_locker'']
   \<and> map sh_status (shipments (snd (locker_log demo_server ''L1'' (Some ''opened_by_customer'')
           (Some ''RESI0001'') None 1000))) = [''completed'']
   \<and> fst (locker_deposit
            (snd (locker_log demo_server ''L1'' (Some ''opened_by_customer'') (Some ''RESI0001'')
                    None 1000))
            ''L1'' (Some ''LK-L1-00ff10ab0509'') (Some ''RESI0001'') 2000 [0, 0, 0, 0, 0, 0]
            [1, 2, 3, 4, 5, 6])
       = (200, DepositedLegacy ''L1'' ''RESI0001'' [] (Some ''LK-L1-00ff10ab0509'')
                 ''LK-L1-010203040506'')
   \<and> map sh_status (shipments (snd (locker_deposit
            (snd (locker_log demo_server ''L1'' (Some ''opened_by_customer'') (Some ''RESI0001'')
                    None 1000))
            ''L1'' (Some ''LK-L1-00ff10ab0509'') (Some ''RESI0001'') 2000 [0, 0, 0, 0, 0, 0]
            [1, 2, 3, 4, 5, 6]))) = [''delivered_to_locker'']
   \<and> status_rank ''delivered_to_locker'' < status_rank ''completed''"
  by code_simp

section \<open>Rotation of the token\<close>


















text \<open>The deposit by plate on the first state: a deposit, a plate with no shipment
  waiting, and a plate whose upper-case form is outside the code units modelled.\<close>

lemma plate_deposit_example:
  "fst (courier_deposit demo_server (Some '' LK-L1-00ff10ab0509'') (Some ''b1234xy '') 1000
          [1, 2, 3, 4, 5, 6])
     = (200, DepositedPlate ''L1'' ''RESI0001'' ''B1234XY'' (Some ''LK-L1-00ff10ab0509'')
               ''LK-L1-010203040506'')
   \<and> fst (courier_deposit demo_server (Some ''LK-L1-00ff10ab0509'') (Some ''B9999ZZ'') 1000
          [1, 2, 3, 4, 5, 6])
     = (404, NoPendingForPlate (Some ''B9999ZZ'') ''L1'' 1 0)
   \<and> fst (courier_deposit demo_server (Some ''LK-L1-00ff10ab0509'')
          (Some [char_of (181 :: nat)]) 1000 [1, 2, 3, 4, 5, 6])
     = (404, NoPendingForPlate None ''L1'' 1 0)"
  by code_simp





























end
